theory Spec2Isabelle
  imports Main
begin

section \<open>Go strings as byte lists\<close>

text \<open>
  A Go \<open>string\<close> is a sequence of bytes, and \<open>char\<close> is a byte, so a Go string is a
  \<open>string\<close> here. The functions of package \<open>strings\<close> and the one regular expression
  that \<open>internal/cmd/mq.go\<close> uses are written out below on bytes.
\<close>

definition isLowerAZ :: "char \<Rightarrow> bool" where
  \<comment> \<open>the character class \<open>[a-z]\<close>\<close>
  "isLowerAZ c = ((97::nat) \<le> of_char c \<and> of_char c \<le> (122::nat))"

definition isDigit09 :: "char \<Rightarrow> bool" where
  \<comment> \<open>the character class \<open>[0-9]\<close>\<close>
  "isDigit09 c = ((48::nat) \<le> of_char c \<and> of_char c \<le> (57::nat))"

definition isLowerAZ09 :: "char \<Rightarrow> bool" where
  \<comment> \<open>the character class \<open>[a-z0-9]\<close>\<close>
  "isLowerAZ09 c = (isLowerAZ c \<or> isDigit09 c)"

definition HasPrefix :: "string \<Rightarrow> string \<Rightarrow> bool" where
  \<comment> \<open>\<open>strings.HasPrefix(s, prefix)\<close>\<close>
  "HasPrefix s p = (take (length p) s = p)"

fun SplitN :: "string \<Rightarrow> char \<Rightarrow> nat \<Rightarrow> string list" where
  \<comment> \<open>\<open>strings.SplitN(s, sep, n)\<close> for a one-byte separator and \<open>n \<ge> 0\<close>: at most \<open>n\<close>
      pieces, the last one the unsplit remainder\<close>
  "SplitN s sep 0 = []"
| "SplitN s sep (Suc 0) = [s]"
| "SplitN s sep (Suc (Suc n)) =
     (if sep \<in> set s
      then takeWhile (\<lambda>c. c \<noteq> sep) s # SplitN (tl (dropWhile (\<lambda>c. c \<noteq> sep) s)) sep (Suc n)
      else [s])"

subsection \<open>The issue pattern\<close>

text \<open>
  \<open>parseBranchName\<close> compiles \<^verbatim>\<open>([a-z]+-[a-z0-9]+(?:\.[0-9]+)?)\<close> and asks for the
  leftmost match. Go's \<open>regexp\<close> prefers, among the matches that start at the leftmost
  position, the one a backtracking matcher finds first. Every repetition of the pattern
  is greedy and is followed by a byte outside its own class (or by the end of the
  pattern), so at a given start the only candidate is: the whole run of \<open>[a-z]\<close>, the
  dash, the whole run of \<open>[a-z0-9]\<close>, and the dotted group with its whole run of digits
  when a dot and a digit follow.
\<close>

definition subtaskSuffix :: "string \<Rightarrow> string" where
  \<comment> \<open>what \<^verbatim>\<open>(?:\.[0-9]+)?\<close> consumes at the start of the text\<close>
  "subtaskSuffix s =
     (case s of
        [] \<Rightarrow> []
      | c # r \<Rightarrow>
          if c = CHR ''.'' \<and> takeWhile isDigit09 r \<noteq> [] then c # takeWhile isDigit09 r else [])"

definition issuePatternAt :: "string \<Rightarrow> string option" where
  \<comment> \<open>the match of the pattern anchored at the start of the text, if there is one\<close>
  "issuePatternAt s =
     (let prefix = takeWhile isLowerAZ s; r1 = dropWhile isLowerAZ s in
      if prefix = [] then None
      else (case r1 of
              [] \<Rightarrow> None
            | d # r2 \<Rightarrow>
                let token = takeWhile isLowerAZ09 r2; r3 = dropWhile isLowerAZ09 r2 in
                if d = CHR ''-'' \<and> token \<noteq> []
                then Some (prefix @ d # token @ subtaskSuffix r3)
                else None))"

fun issuePatternFind :: "string \<Rightarrow> string option" where
  \<comment> \<open>the leftmost match: the first start position at which the pattern matches\<close>
  "issuePatternFind [] = None"
| "issuePatternFind (c # cs) =
     (case issuePatternAt (c # cs) of
        Some m \<Rightarrow> Some m
      | None \<Rightarrow> issuePatternFind cs)"

definition FindStringSubmatch :: "string \<Rightarrow> string list" where
  \<comment> \<open>\<open>issuePattern.FindStringSubmatch(s)\<close>: nil when nothing matches, otherwise the
      match followed by its one capture group, which is the whole pattern\<close>
  "FindStringSubmatch s = (case issuePatternFind s of None \<Rightarrow> [] | Some m \<Rightarrow> [m, m])"

section \<open>Branch names\<close>

record branchInfo =
  info_Branch :: string
  info_Issue :: string
  info_Worker :: string

definition parseBranchName :: "string \<Rightarrow> branchInfo" where
  "parseBranchName branch =
     (let info = \<lparr>info_Branch = branch, info_Issue = [], info_Worker = []\<rparr>;
          parts = SplitN branch CHR ''/'' 3;
          matches = FindStringSubmatch branch
      in if HasPrefix branch ''polecat/'' \<and> length parts = 3
         then info\<lparr>info_Worker := parts ! 1, info_Issue := parts ! 2\<rparr>
         else if length matches > 1 then info\<lparr>info_Issue := matches ! 1\<rparr>
         else info)"

section \<open>The issue store and the submit command\<close>

text \<open>
  Package \<open>beads\<close> is the client of the external issue store. From it the command uses
  the types below (with the fields \<open>mq.go\<close> reads or writes) and the calls \<open>Show\<close>,
  \<open>Create\<close>, \<open>List\<close>, \<open>Ready\<close>, \<open>ParseMRFields\<close> and \<open>FormatMRFields\<close>, which are
  parameters of the model.
\<close>

record Issue =
  ID :: string
  Title :: string
  Description :: string
  Status :: string
  Priority :: int
  IssueType :: string
  CreatedAt :: string
  BlockedBy :: "string list"
  BlockedByCount :: int

record MRFields =
  mr_Branch :: string
  mr_Target :: string
  mr_SourceIssue :: string
  mr_Worker :: string
  mr_Rig :: string
  mr_MergeCommit :: string
  mr_CloseReason :: string

record CreateOptions =
  co_Title :: string
  co_Type :: string
  co_Priority :: int
  co_Description :: string

record submitFlags =
  mqSubmitBranch :: string
  mqSubmitIssue :: string
  mqSubmitEpic :: string
  mqSubmitPriority :: int

text \<open>
  What \<open>runMqSubmit\<close> reads from its surroundings: the workspace root, the rig found
  from the working directory, the working directory, the current git branch, and the
  store. \<open>None\<close> is the call's error return.
\<close>

record submitEnv =
  FindFromCwdOrError :: "string option"
  findCurrentRig :: "string \<Rightarrow> string option"
  Getwd :: "string option"
  CurrentBranch :: "string option"
  Show :: "string \<Rightarrow> Issue option"
  Create :: "CreateOptions \<Rightarrow> Issue option"
  FormatMRFields :: "MRFields \<Rightarrow> string"

datatype submitError =
  NotInWorkspace
| RigError
| GetwdError
| CurrentBranchError
| TrunkBranch
| IssueRequired string
| CreateError

datatype storeCall = ShowCall string | CreateCall CreateOptions

record submitted =
  sub_Issue :: Issue
  sub_Fields :: MRFields
  sub_Options :: CreateOptions

definition resolveBranch :: "submitEnv \<Rightarrow> submitFlags \<Rightarrow> string option" where
  \<comment> \<open>the \<open>--branch\<close> flag, or the current branch when the flag is empty\<close>
  "resolveBranch env fl =
     (if mqSubmitBranch fl = [] then CurrentBranch env else Some (mqSubmitBranch fl))"

definition submitTarget :: "submitFlags \<Rightarrow> string" where
  "submitTarget fl = (if mqSubmitEpic fl \<noteq> [] then ''integration/'' @ mqSubmitEpic fl else ''main'')"

definition submitPriority :: "submitEnv \<Rightarrow> submitFlags \<Rightarrow> string \<Rightarrow> int \<times> storeCall list" where
  \<comment> \<open>the priority, and the store calls made to find it\<close>
  "submitPriority env fl issueID =
     (if mqSubmitPriority fl \<ge> 0 then (mqSubmitPriority fl, [])
      else (case Show env issueID of
              None \<Rightarrow> (2, [ShowCall issueID])
            | Some sourceIssue \<Rightarrow> (Priority sourceIssue, [ShowCall issueID])))"

definition runMqSubmit :: "submitEnv \<Rightarrow> submitFlags \<Rightarrow> (submitError + submitted) \<times> storeCall list" where
  \<comment> \<open>the result, and the calls made to the store in order; the lines printed on
      success are not part of the model\<close>
  "runMqSubmit env fl =
     (case FindFromCwdOrError env of
        None \<Rightarrow> (Inl NotInWorkspace, [])
      | Some townRoot \<Rightarrow>
     (case findCurrentRig env townRoot of
        None \<Rightarrow> (Inl RigError, [])
      | Some rigName \<Rightarrow>
     (case Getwd env of
        None \<Rightarrow> (Inl GetwdError, [])
      | Some cwd \<Rightarrow>
     (case resolveBranch env fl of
        None \<Rightarrow> (Inl CurrentBranchError, [])
      | Some branch \<Rightarrow>
          if branch = ''main'' \<or> branch = ''master'' then (Inl TrunkBranch, [])
          else
            let info = parseBranchName branch;
                issueID = (if mqSubmitIssue fl = [] then info_Issue info else mqSubmitIssue fl);
                worker = info_Worker info
            in if issueID = [] then (Inl (IssueRequired branch), [])
               else
                 let target = submitTarget fl;
                     (priority, shown) = submitPriority env fl issueID;
                     title = ''Merge: '' @ issueID;
                     mrFields = \<lparr>mr_Branch = branch, mr_Target = target,
                                 mr_SourceIssue = issueID, mr_Worker = worker,
                                 mr_Rig = rigName, mr_MergeCommit = [], mr_CloseReason = []\<rparr>;
                     createOpts = \<lparr>co_Title = title, co_Type = ''merge-request'',
                                   co_Priority = priority,
                                   co_Description = FormatMRFields env mrFields\<rparr>
                 in (case Create env createOpts of
                       None \<Rightarrow> (Inl CreateError, shown @ [CreateCall createOpts])
                     | Some issue \<Rightarrow>
                         (Inr \<lparr>sub_Issue = issue, sub_Fields = mrFields,
                               sub_Options = createOpts\<rparr>,
                          shown @ [CreateCall createOpts]))))))"

section \<open>The list command\<close>

record listFlags =
  mqListReady :: bool
  mqListStatus :: string
  mqListWorker :: string
  mqListEpic :: string
  mqListJSON :: bool

record ListOptions =
  lo_Type :: string
  lo_Status :: string

definition isASCII :: "char \<Rightarrow> bool" where
  \<comment> \<open>a byte below \<open>utf8.RuneSelf\<close>\<close>
  "isASCII c = (of_char c < (128::nat))"

definition asciiLower :: "char \<Rightarrow> char" where
  "asciiLower c =
     (if (65::nat) \<le> of_char c \<and> of_char c \<le> (90::nat) then char_of (of_char c + (32::nat)) else c)"

definition EqualFold :: "(string \<Rightarrow> string \<Rightarrow> bool) \<Rightarrow> string \<Rightarrow> string \<Rightarrow> bool" where
  \<comment> \<open>\<open>strings.EqualFold(s, t)\<close>: on ASCII text, equality up to the case of letters; the
      first parameter is Go's answer when a byte outside ASCII takes part (Unicode
      simple folding, whose tables are not part of the model)\<close>
  "EqualFold unicodeFold s t =
     (if list_all isASCII s \<and> list_all isASCII t then map asciiLower s = map asciiLower t
      else unicodeFold s t)"

text \<open>
  What \<open>runMQList\<close> reads from its surroundings: the rig's path (from
  \<open>getRefineryManager\<close>), the two store queries on that path, the decoder of the fields
  embedded in a description, and the clock behind \<open>formatMRAge\<close>.
\<close>

record listEnv =
  getRefineryManager :: "string \<Rightarrow> string option"
  List :: "string \<Rightarrow> ListOptions \<Rightarrow> Issue list option"
  Ready :: "string \<Rightarrow> Issue list option"
  ParseMRFields :: "Issue \<Rightarrow> MRFields option"
  unicodeFold :: "string \<Rightarrow> string \<Rightarrow> bool"
  formatMRAge :: "string \<Rightarrow> string"

datatype listError = RigNotFound | ReadyQueryError | ListQueryError

record listRow =
  row_ID :: string
  row_Status :: string
  row_Priority :: int
  row_Branch :: string
  row_Worker :: string
  row_Age :: string
  row_WaitingOn :: "string option"

datatype listOutput = JSONOutput "Issue list" | EmptyQueue | Table "listRow list"

definition listOpts :: "listFlags \<Rightarrow> ListOptions" where
  \<comment> \<open>the options built before the query\<close>
  "listOpts fl =
     (let opts = \<lparr>lo_Type = ''merge-request'', lo_Status = []\<rparr> in
      if mqListStatus fl \<noteq> [] then opts\<lparr>lo_Status := mqListStatus fl\<rparr>
      else if \<not> mqListReady fl then opts\<lparr>lo_Status := ''open''\<rparr>
      else opts)"

definition queryIssues :: "listEnv \<Rightarrow> listFlags \<Rightarrow> string \<Rightarrow> listError + Issue list" where
  "queryIssues env fl path =
     (if mqListReady fl
      then (case Ready env path of
              None \<Rightarrow> Inl ReadyQueryError
            | Some allReady \<Rightarrow> Inr (filter (\<lambda>issue. IssueType issue = ''merge-request'') allReady))
      else (case List env path (listOpts fl) of
              None \<Rightarrow> Inl ListQueryError
            | Some issues \<Rightarrow> Inr issues))"

fun applyFilters :: "listEnv \<Rightarrow> listFlags \<Rightarrow> Issue list \<Rightarrow> Issue list" where
  \<comment> \<open>the loop that builds \<open>filtered\<close>\<close>
  "applyFilters env fl [] = []"
| "applyFilters env fl (issue # issues) =
     (let fields = ParseMRFields env issue;
          worker = (case fields of None \<Rightarrow> [] | Some f \<Rightarrow> mr_Worker f);
          target = (case fields of None \<Rightarrow> [] | Some f \<Rightarrow> mr_Target f);
          expectedTarget = ''integration/'' @ mqListEpic fl
      in if mqListWorker fl \<noteq> [] \<and> \<not> EqualFold (unicodeFold env) worker (mqListWorker fl)
         then applyFilters env fl issues
         else if mqListEpic fl \<noteq> [] \<and> target \<noteq> expectedTarget
         then applyFilters env fl issues
         else issue # applyFilters env fl issues)"

definition displayStatus :: "Issue \<Rightarrow> string" where
  "displayStatus issue =
     (if Status issue = ''open''
      then (if length (BlockedBy issue) > 0 \<or> BlockedByCount issue > 0 then ''blocked'' else ''ready'')
      else Status issue)"

definition waitingOn :: "Issue \<Rightarrow> string option" where
  \<comment> \<open>the id in the line \<open>(waiting on ...)\<close> printed under a row, if the line is printed\<close>
  "waitingOn issue =
     (if displayStatus issue = ''blocked'' \<and> length (BlockedBy issue) > 0
      then Some (BlockedBy issue ! 0) else None)"

definition formatRow :: "listEnv \<Rightarrow> Issue \<Rightarrow> listRow" where
  \<comment> \<open>one pass of the printing loop, without the terminal styling\<close>
  "formatRow env issue =
     (let fields = ParseMRFields env issue;
          branch = (case fields of None \<Rightarrow> [] | Some f \<Rightarrow> mr_Branch f);
          worker = (case fields of None \<Rightarrow> [] | Some f \<Rightarrow> mr_Worker f)
      in \<lparr>row_ID = (if length (ID issue) > 12 then take 12 (ID issue) else ID issue),
          row_Status = displayStatus issue,
          row_Priority = Priority issue,
          row_Branch = (if length branch > 30 then take 27 branch @ ''...'' else branch),
          row_Worker = worker,
          row_Age = formatMRAge env (CreatedAt issue),
          row_WaitingOn = waitingOn issue\<rparr>)"

definition filteredIssues :: "listEnv \<Rightarrow> listFlags \<Rightarrow> string \<Rightarrow> listError + Issue list" where
  \<comment> \<open>the slice \<open>filtered\<close>: the query on the rig's store, then the filters\<close>
  "filteredIssues env fl path =
     (case queryIssues env fl path of
        Inl e \<Rightarrow> Inl e
      | Inr issues \<Rightarrow> Inr (applyFilters env fl issues))"

definition runMQList :: "listEnv \<Rightarrow> listFlags \<Rightarrow> string \<Rightarrow> listError + listOutput" where
  \<comment> \<open>\<open>rigName\<close> is \<open>args[0]\<close>; cobra has checked that there is exactly one argument\<close>
  "runMQList env fl rigName =
     (case getRefineryManager env rigName of
        None \<Rightarrow> Inl RigNotFound
      | Some path \<Rightarrow>
          (case filteredIssues env fl path of
             Inl e \<Rightarrow> Inl e
           | Inr filtered \<Rightarrow>
               if mqListJSON fl then Inr (JSONOutput filtered)
               else if length filtered = 0 then Inr EmptyQueue
               else Inr (Table (map (formatRow env) filtered))))"

definition storeList :: "Issue list \<Rightarrow> ListOptions \<Rightarrow> Issue list" where
  \<comment> \<open>Modelled from the spec: the store's list query, which is not in \<open>mq.go\<close>. The
      store holds generically typed records and selects by type and by status; an empty
      option selects nothing out.\<close>
  "storeList records opts =
     filter (\<lambda>r. (lo_Type opts = [] \<or> IssueType r = lo_Type opts) \<and>
                 (lo_Status opts = [] \<or> Status r = lo_Status opts)) records"

section \<open>Notes: a description without its merge-request fields\<close>

subsection \<open>\<open>strings.TrimSpace\<close>, \<open>strings.ToLower\<close>, \<open>strings.Split\<close>, \<open>strings.Join\<close>\<close>

definition spaceRunes :: "string list" where
  \<comment> \<open>the UTF-8 encodings of the code points for which \<open>unicode.IsSpace\<close> holds: U+0009
      to U+000D, U+0020, U+0085, U+00A0, U+1680, U+2000 to U+200A, U+2028, U+2029,
      U+202F, U+205F, U+3000\<close>
  "spaceRunes =
     [[CHR 0x09], [CHR 0x0A], [CHR 0x0B], [CHR 0x0C], [CHR 0x0D], [CHR 0x20],
      [CHR 0xC2, CHR 0x85], [CHR 0xC2, CHR 0xA0],
      [CHR 0xE1, CHR 0x9A, CHR 0x80],
      [CHR 0xE2, CHR 0x80, CHR 0x80], [CHR 0xE2, CHR 0x80, CHR 0x81],
      [CHR 0xE2, CHR 0x80, CHR 0x82], [CHR 0xE2, CHR 0x80, CHR 0x83],
      [CHR 0xE2, CHR 0x80, CHR 0x84], [CHR 0xE2, CHR 0x80, CHR 0x85],
      [CHR 0xE2, CHR 0x80, CHR 0x86], [CHR 0xE2, CHR 0x80, CHR 0x87],
      [CHR 0xE2, CHR 0x80, CHR 0x88], [CHR 0xE2, CHR 0x80, CHR 0x89],
      [CHR 0xE2, CHR 0x80, CHR 0x8A],
      [CHR 0xE2, CHR 0x80, CHR 0xA8], [CHR 0xE2, CHR 0x80, CHR 0xA9],
      [CHR 0xE2, CHR 0x80, CHR 0xAF],
      [CHR 0xE2, CHR 0x81, CHR 0x9F],
      [CHR 0xE3, CHR 0x80, CHR 0x80]]"

function dropRunes :: "string list \<Rightarrow> string \<Rightarrow> string" where
  \<comment> \<open>drops from the front of the text, as long as there is one, an encoding of the list\<close>
  "dropRunes rs s =
     (case List.find (\<lambda>r. r \<noteq> [] \<and> HasPrefix s r) rs of
        None \<Rightarrow> s
      | Some r \<Rightarrow> dropRunes rs (drop (length r) s))"
  by pat_completeness auto
termination
proof (relation "measure (\<lambda>(rs, s). length s)")
  show "wf (measure (\<lambda>(rs, s). length s))" by simp
next
  fix rs :: "string list" and s r :: string
  assume "List.find (\<lambda>r. r \<noteq> [] \<and> HasPrefix s r) rs = Some r"
  then have "r \<noteq> []" and "HasPrefix s r"
    by (auto simp: find_Some_iff)
  then have "s \<noteq> []"
    by (auto simp: HasPrefix_def)
  with \<open>r \<noteq> []\<close> show "((rs, drop (length r) s), (rs, s)) \<in> measure (\<lambda>(rs, s). length s)"
    by simp
qed

definition TrimLeftSpace :: "string \<Rightarrow> string" where
  \<comment> \<open>\<open>strings.TrimLeftFunc(s, unicode.IsSpace)\<close>: a rune is read from the front and dropped
      while it is a space\<close>
  "TrimLeftSpace s = dropRunes spaceRunes s"

definition TrimRightSpace :: "string \<Rightarrow> string" where
  \<comment> \<open>\<open>strings.TrimRightFunc(s, unicode.IsSpace)\<close>: the same from the back, where the last
      rune is the encoding the text ends with\<close>
  "TrimRightSpace s = rev (dropRunes (map rev spaceRunes) (rev s))"

definition TrimSpace :: "string \<Rightarrow> string" where
  \<comment> \<open>\<open>strings.TrimSpace(s)\<close>; its fast path over ASCII bytes computes the same\<close>
  "TrimSpace s = TrimRightSpace (TrimLeftSpace s)"

definition ToLower :: "(string \<Rightarrow> string) \<Rightarrow> string \<Rightarrow> string" where
  \<comment> \<open>\<open>strings.ToLower(s)\<close>: on ASCII text the letters \<open>A\<close> to \<open>Z\<close> become \<open>a\<close> to \<open>z\<close>;
      otherwise Go maps \<open>unicode.ToLower\<close> over the runes, and that result is the first
      parameter (the Unicode case tables are not part of the model)\<close>
  "ToLower unicodeLower s = (if list_all isASCII s then map asciiLower s else unicodeLower s)"

fun Split :: "string \<Rightarrow> char \<Rightarrow> string list" where
  \<comment> \<open>\<open>strings.Split(s, sep)\<close> for a one-byte separator: one piece more than there are
      separators\<close>
  "Split [] sep = [[]]"
| "Split (c # cs) sep =
     (if c = sep then [] # Split cs sep
      else (case Split cs sep of
              [] \<Rightarrow> [[c]]
            | piece # pieces \<Rightarrow> (c # piece) # pieces))"

fun Join :: "string list \<Rightarrow> string \<Rightarrow> string" where
  \<comment> \<open>\<open>strings.Join(elems, sep)\<close>\<close>
  "Join [] sep = []"
| "Join [x] sep = x"
| "Join (x # y # ys) sep = x @ sep @ Join (y # ys) sep"

definition Index :: "string \<Rightarrow> char \<Rightarrow> nat option" where
  \<comment> \<open>\<open>strings.Index(s, sep)\<close> for a one-byte separator; \<open>None\<close> is \<open>-1\<close>\<close>
  "Index s sep = (if sep \<in> set s then Some (length (takeWhile (\<lambda>c. c \<noteq> sep) s)) else None)"

subsection \<open>\<open>getDescriptionWithoutMRFields\<close>\<close>

definition mrKeys :: "string list" where
  \<comment> \<open>the keys of the map \<open>mrKeys\<close>; every one maps to \<open>true\<close>, and a key that is absent
      reads as \<open>false\<close>\<close>
  "mrKeys =
     [''branch'', ''target'', ''source_issue'', ''source-issue'', ''sourceissue'',
      ''worker'', ''rig'', ''merge_commit'', ''merge-commit'', ''mergecommit'',
      ''close_reason'', ''close-reason'', ''closereason'', ''type'']"

fun keepLines :: "(string \<Rightarrow> string) \<Rightarrow> string list \<Rightarrow> string list" where
  \<comment> \<open>the loop over the lines of the description; the result is the slice \<open>lines\<close>\<close>
  "keepLines unicodeLower [] = []"
| "keepLines unicodeLower (line # rest) =
     (let trimmed = TrimSpace line in
      if trimmed = [] then line # keepLines unicodeLower rest
      else (case Index trimmed CHR '':'' of
              None \<Rightarrow> line # keepLines unicodeLower rest
            | Some colonIdx \<Rightarrow>
                let key = ToLower unicodeLower (TrimSpace (take colonIdx trimmed)) in
                if key \<in> set mrKeys then keepLines unicodeLower rest
                else line # keepLines unicodeLower rest))"

definition getDescriptionWithoutMRFields :: "(string \<Rightarrow> string) \<Rightarrow> string \<Rightarrow> string" where
  "getDescriptionWithoutMRFields unicodeLower description =
     (if description = [] then []
      else TrimSpace (Join (keepLines unicodeLower (Split description CHR 0x0A)) [CHR 0x0A]))"

subsection \<open>The same in the words of the specification\<close>

definition fieldKey :: "string \<Rightarrow> string" where
  \<comment> \<open>the key of a line: the text before the first colon, without the space around it\<close>
  "fieldKey line = TrimSpace (takeWhile (\<lambda>c. c \<noteq> CHR '':'') (TrimSpace line))"

definition isMRFieldLine :: "(string \<Rightarrow> string) \<Rightarrow> string \<Rightarrow> bool" where
  \<comment> \<open>a line with a colon whose key, in lower case, is a recognized field name\<close>
  "isMRFieldLine unicodeLower line =
     (CHR '':'' \<in> set (TrimSpace line) \<and> ToLower unicodeLower (fieldKey line) \<in> set mrKeys)"

definition normalizedKey :: "(string \<Rightarrow> string) \<Rightarrow> string \<Rightarrow> string" where
  \<comment> \<open>the normalization the specification describes: lower case, then the separators
      \<open>_\<close> and \<open>-\<close> stripped\<close>
  "normalizedKey unicodeLower key =
     filter (\<lambda>c. c \<noteq> CHR ''_'' \<and> c \<noteq> CHR ''-'') (ToLower unicodeLower key)"

section \<open>Example surroundings\<close>

text \<open>
  A store that accepts every record it is given, an encoder of the embedded fields in
  the form the specification describes (\<open>key: value\<close> lines, empty values left out), and
  the flag values that \<open>init\<close> registers as defaults.
\<close>

definition acceptingCreate :: "CreateOptions \<Rightarrow> Issue option" where
  "acceptingCreate opts =
     Some \<lparr>ID = ''gt-mr-1'', Title = co_Title opts, Description = co_Description opts,
           Status = ''open'', Priority = co_Priority opts, IssueType = co_Type opts,
           CreatedAt = ''2025-01-01T00:00:00Z'', BlockedBy = [], BlockedByCount = 0\<rparr>"

definition fieldLine :: "string \<Rightarrow> string \<Rightarrow> string list" where
  "fieldLine key v = (if v = [] then [] else [key @ '': '' @ v])"

definition exampleFormat :: "MRFields \<Rightarrow> string" where
  "exampleFormat f =
     Join (fieldLine ''branch'' (mr_Branch f) @ fieldLine ''target'' (mr_Target f) @
           fieldLine ''source_issue'' (mr_SourceIssue f) @ fieldLine ''worker'' (mr_Worker f) @
           fieldLine ''rig'' (mr_Rig f) @ fieldLine ''merge_commit'' (mr_MergeCommit f) @
           fieldLine ''close_reason'' (mr_CloseReason f)) [CHR 0x0A]"

definition exampleShow :: "string \<Rightarrow> Issue option" where
  \<comment> \<open>a store that holds the one issue \<open>gt-42\<close>, of priority 1\<close>
  "exampleShow issueID =
     (if issueID = ''gt-42''
      then Some \<lparr>ID = ''gt-42'', Title = ''Fix the parser'', Description = [],
                 Status = ''in_progress'', Priority = 1, IssueType = ''task'',
                 CreatedAt = ''2025-01-01T00:00:00Z'', BlockedBy = [], BlockedByCount = 0\<rparr>
      else None)"

definition exampleEnv :: "string \<Rightarrow> submitEnv" where
  \<comment> \<open>a rig \<open>gastown\<close> of the town \<open>/town\<close>, checked out on the given branch\<close>
  "exampleEnv branch =
     \<lparr>FindFromCwdOrError = Some ''/town'',
      findCurrentRig = (\<lambda>townRoot. Some ''gastown''),
      Getwd = Some ''/town/gastown'',
      CurrentBranch = Some branch,
      Show = exampleShow,
      Create = acceptingCreate,
      FormatMRFields = exampleFormat\<rparr>"

definition defaultSubmitFlags :: submitFlags where
  "defaultSubmitFlags =
     \<lparr>mqSubmitBranch = [], mqSubmitIssue = [], mqSubmitEpic = [], mqSubmitPriority = - 1\<rparr>"


definition submittedOptions :: "(submitError + submitted) \<times> storeCall list \<Rightarrow> CreateOptions option" where
  \<comment> \<open>the record a run created, if it created one\<close>
  "submittedOptions r = (case fst r of Inl e \<Rightarrow> None | Inr sub \<Rightarrow> Some (sub_Options sub))"



definition lookupField :: "string \<Rightarrow> string \<Rightarrow> string" where
  \<comment> \<open>the value of the first line \<open>key: value\<close> of a description\<close>
  "lookupField key description =
     (case List.find (\<lambda>line. HasPrefix line (key @ '': '')) (Split description CHR 0x0A) of
        None \<Rightarrow> []
      | Some line \<Rightarrow> drop (length key + 2) line)"

definition exampleParse :: "Issue \<Rightarrow> MRFields option" where
  \<comment> \<open>a decoder of what \<open>exampleFormat\<close> writes\<close>
  "exampleParse issue =
     (let d = Description issue in
      if d = [] then None
      else Some \<lparr>mr_Branch = lookupField ''branch'' d, mr_Target = lookupField ''target'' d,
                 mr_SourceIssue = lookupField ''source_issue'' d,
                 mr_Worker = lookupField ''worker'' d, mr_Rig = lookupField ''rig'' d,
                 mr_MergeCommit = lookupField ''merge_commit'' d,
                 mr_CloseReason = lookupField ''close_reason'' d\<rparr>)"

definition mrReady :: Issue where
  "mrReady =
     \<lparr>ID = ''gt-mr-1'', Title = ''Merge: gt-42'',
      Description = ''branch: polecat/nix/gt-42\<newline>target: integration/gt-epic\<newline>source_issue: gt-42\<newline>worker: nix'',
      Status = ''open'', Priority = 1, IssueType = ''merge-request'',
      CreatedAt = ''2025-01-01T00:00:00Z'', BlockedBy = [], BlockedByCount = 0\<rparr>"

definition mrClosed :: Issue where
  "mrClosed =
     \<lparr>ID = ''gt-mr-2'', Title = ''Merge: gt-7'',
      Description = ''branch: polecat/toast/gt-7\<newline>target: main\<newline>source_issue: gt-7\<newline>worker: toast'',
      Status = ''closed'', Priority = 2, IssueType = ''merge-request'',
      CreatedAt = ''2025-01-01T00:00:00Z'', BlockedBy = [], BlockedByCount = 0\<rparr>"

definition mrWaiting :: Issue where
  \<comment> \<open>as a list query returns it: blockers counted, their ids not given\<close>
  "mrWaiting =
     \<lparr>ID = ''gt-mr-3'', Title = ''Merge: gt-9'',
      Description = ''branch: polecat/nix/gt-9\<newline>target: main\<newline>source_issue: gt-9\<newline>worker: nix'',
      Status = ''open'', Priority = 0, IssueType = ''merge-request'',
      CreatedAt = ''2025-01-01T00:00:00Z'', BlockedBy = [], BlockedByCount = 1\<rparr>"

definition mrBlocked :: Issue where
  \<comment> \<open>as a show query returns it: the blockers' ids given\<close>
  "mrBlocked =
     \<lparr>ID = ''gt-mr-4'', Title = ''Merge: gt-11'',
      Description = ''branch: polecat/capable/gt-11\<newline>target: main\<newline>source_issue: gt-11\<newline>worker: capable'',
      Status = ''open'', Priority = 1, IssueType = ''merge-request'',
      CreatedAt = ''2025-01-01T00:00:00Z'', BlockedBy = [''gt-mr-1'', ''gt-mr-3''],
      BlockedByCount = 2\<rparr>"

definition exampleRecords :: "Issue list" where
  "exampleRecords = [mrReady, mrClosed, mrWaiting, mrBlocked]"

definition exampleListEnv :: listEnv where
  "exampleListEnv =
     \<lparr>getRefineryManager = (\<lambda>rigName. if rigName = ''gastown'' then Some ''/town/gastown'' else None),
      List = (\<lambda>path opts. Some (storeList exampleRecords opts)),
      Ready = (\<lambda>path. Some [mrReady]),
      ParseMRFields = exampleParse,
      unicodeFold = (\<lambda>s t. False),
      formatMRAge = (\<lambda>createdAt. ''5m'')\<rparr>"

definition defaultListFlags :: listFlags where
  "defaultListFlags =
     \<lparr>mqListReady = False, mqListStatus = [], mqListWorker = [], mqListEpic = [],
      mqListJSON = False\<rparr>"

definition priorityInRange :: "int \<Rightarrow> bool" where
  \<comment> \<open>the range the data model gives for a priority\<close>
  "priorityInRange p = (0 \<le> p \<and> p \<le> 4)"

definition identityLower :: "string \<Rightarrow> string" where
  \<comment> \<open>stands in the examples for the Unicode branch of \<open>ToLower\<close>, which ASCII text
      never reaches\<close>
  "identityLower s = s"

definition polecatForm :: "string \<Rightarrow> bool" where
  \<comment> \<open>the branch has the form \<open>polecat/<worker>/<rest>\<close>: the prefix and a second slash,
      which is when \<open>parseBranchName\<close> takes its first return\<close>
  "polecatForm branch = (HasPrefix branch ''polecat/'' \<and> length (SplitN branch CHR ''/'' 3) = 3)"

section \<open>Facts about the submit command\<close>

lemma runMqSubmit_reached:
  assumes "FindFromCwdOrError env = Some townRoot" and "findCurrentRig env townRoot = Some rigName"
    and "Getwd env = Some cwd" and "resolveBranch env fl = Some branch"
  shows "runMqSubmit env fl =
     (if branch = ''main'' \<or> branch = ''master'' then (Inl TrunkBranch, [])
      else
        let issueID = (if mqSubmitIssue fl = [] then info_Issue (parseBranchName branch)
                       else mqSubmitIssue fl)
        in if issueID = [] then (Inl (IssueRequired branch), [])
           else
             let mrFields = \<lparr>mr_Branch = branch, mr_Target = submitTarget fl,
                             mr_SourceIssue = issueID,
                             mr_Worker = info_Worker (parseBranchName branch),
                             mr_Rig = rigName, mr_MergeCommit = [], mr_CloseReason = []\<rparr>;
                 createOpts = \<lparr>co_Title = ''Merge: '' @ issueID, co_Type = ''merge-request'',
                               co_Priority = fst (submitPriority env fl issueID),
                               co_Description = FormatMRFields env mrFields\<rparr>
             in (case Create env createOpts of
                   None \<Rightarrow>
                     (Inl CreateError,
                      snd (submitPriority env fl issueID) @ [CreateCall createOpts])
                 | Some issue \<Rightarrow>
                     (Inr \<lparr>sub_Issue = issue, sub_Fields = mrFields, sub_Options = createOpts\<rparr>,
                      snd (submitPriority env fl issueID) @ [CreateCall createOpts])))"
  using assms by (simp add: runMqSubmit_def Let_def case_prod_beta)









lemma issuePatternAt_not_Nil: "issuePatternAt s = Some m \<Longrightarrow> m \<noteq> []"
  by (auto simp: issuePatternAt_def Let_def split: if_splits list.splits)

lemma issuePatternFind_not_Nil: "issuePatternFind s = Some m \<Longrightarrow> m \<noteq> []"
  by (induction s) (auto split: option.splits dest: issuePatternAt_not_Nil)

lemma issuePatternFind_None_iff:
  "(issuePatternFind s = None) = (\<forall>k < length s. issuePatternAt (drop k s) = None)"
proof (induction s)
  case Nil
  show ?case by simp
next
  case (Cons c cs)
  have "(\<forall>k < length (c # cs). issuePatternAt (drop k (c # cs)) = None) =
        (issuePatternAt (c # cs) = None \<and> (\<forall>k < length cs. issuePatternAt (drop k cs) = None))"
    by (auto simp: less_Suc_eq_0_disj)
  with Cons.IH show ?case
    by (simp split: option.splits)
qed






text \<open>
  Claim C6. The claim says that every merge request created by a successful submit has
  a priority from 0 to 4, the range that the help of the \<open>--priority\<close> flag states. The
  command does not hold the flag to that range: with \<open>--priority 7\<close> on the branch
  \<open>polecat/nix/gt-42\<close> its one call to the store, whatever the store answers, asks for a
  record of priority 7.
\<close>

theorem C6_priority_unchecked:
  "snd (runMqSubmit ((exampleEnv ''polecat/nix/gt-42'')\<lparr>Create := create\<rparr>)
          (defaultSubmitFlags\<lparr>mqSubmitPriority := 7\<rparr>)) =
     [CreateCall \<lparr>co_Title = ''Merge: gt-42'', co_Type = ''merge-request'', co_Priority = 7,
                  co_Description = ''branch: polecat/nix/gt-42\<newline>target: main\<newline>source_issue: gt-42\<newline>worker: nix\<newline>rig: gastown''\<rparr>] \<and>
   \<not> priorityInRange 7"
proof -
  let ?env = "(exampleEnv ''polecat/nix/gt-42'')\<lparr>Create := create\<rparr>"
  let ?fl = "defaultSubmitFlags\<lparr>mqSubmitPriority := 7\<rparr>"
  have h: "FindFromCwdOrError ?env = Some ''/town''"
    "findCurrentRig ?env ''/town'' = Some ''gastown''"
    "Getwd ?env = Some ''/town/gastown''"
    "resolveBranch ?env ?fl = Some ''polecat/nix/gt-42''"
    by (simp_all add: exampleEnv_def resolveBranch_def defaultSubmitFlags_def)
  have p: "parseBranchName ''polecat/nix/gt-42'' =
             \<lparr>info_Branch = ''polecat/nix/gt-42'', info_Issue = ''gt-42'', info_Worker = ''nix''\<rparr>"
    by code_simp
  show ?thesis
    unfolding runMqSubmit_reached [OF h]
    by (simp add: p Let_def submitPriority_def submitTarget_def exampleEnv_def exampleFormat_def
          fieldLine_def defaultSubmitFlags_def priorityInRange_def split: option.splits)
qed

theorem C6_priority_unchecked_witness:
  "map_option co_Priority
     (submittedOptions (runMqSubmit (exampleEnv ''polecat/nix/gt-42'')
        (defaultSubmitFlags\<lparr>mqSubmitPriority := 7\<rparr>))) = Some 7 \<and>
   snd (runMqSubmit (exampleEnv ''polecat/nix/gt-42'')
          (defaultSubmitFlags\<lparr>mqSubmitPriority := 7\<rparr>)) =
     [CreateCall \<lparr>co_Title = ''Merge: gt-42'', co_Type = ''merge-request'', co_Priority = 7,
                  co_Description = ''branch: polecat/nix/gt-42\<newline>target: main\<newline>source_issue: gt-42\<newline>worker: nix\<newline>rig: gastown''\<rparr>]"
proof -
  have e: "(exampleEnv ''polecat/nix/gt-42'')\<lparr>Create := acceptingCreate\<rparr> =
           exampleEnv ''polecat/nix/gt-42''"
    by (simp add: exampleEnv_def)
  have a: "map_option co_Priority
     (submittedOptions (runMqSubmit (exampleEnv ''polecat/nix/gt-42'')
        (defaultSubmitFlags\<lparr>mqSubmitPriority := 7\<rparr>))) = Some 7"
    by code_simp
  show ?thesis
    using C6_priority_unchecked [of acceptingCreate] a unfolding e by simp
qed

lemma parseBranchName_not_polecatForm:
  assumes "\<not> polecatForm branch"
  shows "parseBranchName branch =
           \<lparr>info_Branch = branch,
            info_Issue = (case issuePatternFind branch of None \<Rightarrow> [] | Some m \<Rightarrow> m),
            info_Worker = []\<rparr>"
  using assms
  by (auto simp: parseBranchName_def polecatForm_def FindStringSubmatch_def split: option.splits)

lemma parseBranchName_polecatForm:
  assumes "polecatForm branch"
  shows "info_Issue (parseBranchName branch) = SplitN branch CHR ''/'' 3 ! 2"
  using assms by (simp add: parseBranchName_def polecatForm_def Let_def)

lemma no_issue_iff_no_match:
  assumes "\<not> polecatForm branch"
  shows "(info_Issue (parseBranchName branch) = []) =
           (\<forall>k < length branch. issuePatternAt (drop k branch) = None)"
proof -
  have "(info_Issue (parseBranchName branch) = []) = (issuePatternFind branch = None)"
    using issuePatternFind_not_Nil [of branch]
    by (auto simp: parseBranchName_not_polecatForm [OF assms] split: option.splits)
  then show ?thesis
    by (simp only: issuePatternFind_None_iff)
qed

text \<open>
  Claim C7, as amended. Take a submit that has found its workspace, rig and working
  directory and whose branch is not a trunk name. Whenever it fails with the error that
  asks for \<open>--issue\<close>, no \<open>--issue\<close> was given, no call to the store has been made and no
  record created. For a branch that is not of the form \<open>polecat/<worker>/<rest>\<close> it
  fails with that error if and only if no \<open>--issue\<close> was given and the issue pattern
  matches nowhere in the branch. For a branch \<open>polecat/<worker>/<rest>\<close> with a rest that
  is not empty it does not fail with that error. (The branch \<open>polecat/<worker>/\<close> with
  an empty rest is left out.)
\<close>

theorem C7_issue_required_past_trunk:
  assumes "FindFromCwdOrError env = Some townRoot" and "findCurrentRig env townRoot = Some rigName"
    and "Getwd env = Some cwd" and "resolveBranch env fl = Some branch"
    and "branch \<noteq> ''main''" and "branch \<noteq> ''master''"
  shows "((\<exists>b. fst (runMqSubmit env fl) = Inl (IssueRequired b)) \<longrightarrow>
            mqSubmitIssue fl = [] \<and> snd (runMqSubmit env fl) = [] \<and>
            submittedOptions (runMqSubmit env fl) = None) \<and>
         (\<not> polecatForm branch \<longrightarrow>
            (\<exists>b. fst (runMqSubmit env fl) = Inl (IssueRequired b)) =
              (mqSubmitIssue fl = [] \<and>
               (\<forall>k < length branch. issuePatternAt (drop k branch) = None))) \<and>
         (polecatForm branch \<and> SplitN branch CHR ''/'' 3 ! 2 \<noteq> [] \<longrightarrow>
            (\<nexists>b. fst (runMqSubmit env fl) = Inl (IssueRequired b)))"
proof -
  have r: "(\<exists>b. fst (runMqSubmit env fl) = Inl (IssueRequired b)) =
             (mqSubmitIssue fl = [] \<and> info_Issue (parseBranchName branch) = [])"
    unfolding runMqSubmit_reached [OF assms(1-4)] using assms(5,6)
    by (auto simp: Let_def split: option.splits)
  have w: "(\<exists>b. fst (runMqSubmit env fl) = Inl (IssueRequired b)) \<longrightarrow>
             snd (runMqSubmit env fl) = [] \<and> submittedOptions (runMqSubmit env fl) = None"
    unfolding runMqSubmit_reached [OF assms(1-4)] using assms(5,6)
    by (auto simp: Let_def submittedOptions_def split: option.splits)
  show ?thesis
  proof (intro conjI impI)
    assume "\<exists>b. fst (runMqSubmit env fl) = Inl (IssueRequired b)"
    with r w show "mqSubmitIssue fl = []" and "snd (runMqSubmit env fl) = []"
      and "submittedOptions (runMqSubmit env fl) = None"
      by blast+
  next
    assume "\<not> polecatForm branch"
    then have "(info_Issue (parseBranchName branch) = []) =
                 (\<forall>k < length branch. issuePatternAt (drop k branch) = None)"
      by (rule no_issue_iff_no_match)
    with r show "(\<exists>b. fst (runMqSubmit env fl) = Inl (IssueRequired b)) =
              (mqSubmitIssue fl = [] \<and>
               (\<forall>k < length branch. issuePatternAt (drop k branch) = None))"
      by simp
  next
    assume "polecatForm branch \<and> SplitN branch CHR ''/'' 3 ! 2 \<noteq> []"
    then have "info_Issue (parseBranchName branch) \<noteq> []"
      by (simp add: parseBranchName_polecatForm)
    with r show "\<nexists>b. fst (runMqSubmit env fl) = Inl (IssueRequired b)"
      by simp
  qed
qed

theorem C7_issue_required_past_trunk_witness:
  "(\<exists>b. fst (runMqSubmit (exampleEnv ''Release_2'') defaultSubmitFlags) = Inl (IssueRequired b)) \<and>
   snd (runMqSubmit (exampleEnv ''Release_2'') defaultSubmitFlags) = [] \<and>
   submittedOptions (runMqSubmit (exampleEnv ''Release_2'') defaultSubmitFlags) = None \<and>
   (\<nexists>b. fst (runMqSubmit (exampleEnv ''fix-login'') defaultSubmitFlags) = Inl (IssueRequired b)) \<and>
   (\<nexists>b. fst (runMqSubmit (exampleEnv ''polecat/nix/gt-42'') defaultSubmitFlags) =
          Inl (IssueRequired b))"
proof -
  have h: "FindFromCwdOrError (exampleEnv br) = Some ''/town''"
    "findCurrentRig (exampleEnv br) ''/town'' = Some ''gastown''"
    "Getwd (exampleEnv br) = Some ''/town/gastown''"
    "resolveBranch (exampleEnv br) defaultSubmitFlags = Some br" for br
    by (simp_all add: exampleEnv_def resolveBranch_def defaultSubmitFlags_def)
  have f: "mqSubmitIssue defaultSubmitFlags = []"
    by (simp add: defaultSubmitFlags_def)
  have n: "\<not> polecatForm ''Release_2''" "\<not> polecatForm ''fix-login''"
    "polecatForm ''polecat/nix/gt-42'' \<and> SplitN ''polecat/nix/gt-42'' CHR ''/'' 3 ! 2 \<noteq> []"
    by code_simp+
  have "issuePatternFind ''Release_2'' = None" "issuePatternFind ''fix-login'' \<noteq> None"
    by code_simp+
  then have m: "\<forall>k < length ''Release_2''. issuePatternAt (drop k ''Release_2'') = None"
    "\<not> (\<forall>k < length ''fix-login''. issuePatternAt (drop k ''fix-login'') = None)"
    by (simp_all only: issuePatternFind_None_iff [symmetric] not_False_eq_True)
  have a: "\<exists>b. fst (runMqSubmit (exampleEnv ''Release_2'') defaultSubmitFlags) = Inl (IssueRequired b)"
    using C7_issue_required_past_trunk [OF h, of "''Release_2''"] n(1) m(1) f by simp
  have b: "\<nexists>b. fst (runMqSubmit (exampleEnv ''fix-login'') defaultSubmitFlags) = Inl (IssueRequired b)"
    using C7_issue_required_past_trunk [OF h, of "''fix-login''"] n(2) m(2) by simp
  have c: "\<nexists>b. fst (runMqSubmit (exampleEnv ''polecat/nix/gt-42'') defaultSubmitFlags) =
             Inl (IssueRequired b)"
    using C7_issue_required_past_trunk [OF h, of "''polecat/nix/gt-42''"] n(3) by simp
  from a have "snd (runMqSubmit (exampleEnv ''Release_2'') defaultSubmitFlags) = []"
    and "submittedOptions (runMqSubmit (exampleEnv ''Release_2'') defaultSubmitFlags) = None"
    using C7_issue_required_past_trunk [OF h, of "''Release_2''"] by simp_all
  with a b c show ?thesis by blast
qed

text \<open>
  The claim as it is written fails on the branch \<open>main\<close>: no \<open>--issue\<close> is given and the
  issue pattern matches nowhere in \<open>main\<close>, yet the error is the refusal of a trunk
  branch, not the one that asks for \<open>--issue\<close>.
\<close>

theorem C7_trunk_first_counterexample:
  "mqSubmitIssue defaultSubmitFlags = [] \<and>
   issuePatternFind ''main'' = None \<and>
   info_Issue (parseBranchName ''main'') = [] \<and>
   fst (runMqSubmit (exampleEnv ''main'') defaultSubmitFlags) = Inl TrunkBranch \<and>
   fst (runMqSubmit (exampleEnv ''main'') defaultSubmitFlags) \<noteq> Inl (IssueRequired ''main'')"
  by code_simp

text \<open>
  What the amended statement leaves out: on \<open>polecat/gt-42/\<close> the first return of
  \<open>parseBranchName\<close> takes the empty third part as the issue, so submit asks for
  \<open>--issue\<close> although the issue pattern matches \<open>gt-42\<close> in the branch.
\<close>

lemma polecat_empty_rest_example:
  "issuePatternFind ''polecat/gt-42/'' = Some ''gt-42'' \<and>
   fst (runMqSubmit (exampleEnv ''polecat/gt-42/'') defaultSubmitFlags) =
     Inl (IssueRequired ''polecat/gt-42/'')"
  by code_simp

text \<open>
  Claim C8. Once submit has found its workspace, rig, working directory and branch, it
  refuses the branch as a trunk if and only if the branch is \<open>main\<close> or \<open>master\<close>, and
  a refusal comes before any call to the store.
\<close>

theorem C8_trunk_refused:
  assumes "FindFromCwdOrError env = Some townRoot" and "findCurrentRig env townRoot = Some rigName"
    and "Getwd env = Some cwd" and "resolveBranch env fl = Some branch"
  shows "(fst (runMqSubmit env fl) = Inl TrunkBranch) = (branch = ''main'' \<or> branch = ''master'') \<and>
         (fst (runMqSubmit env fl) = Inl TrunkBranch \<longrightarrow> snd (runMqSubmit env fl) = [])"
  unfolding runMqSubmit_reached [OF assms(1-4)]
  by (auto simp: Let_def split: option.splits)

theorem C8_trunk_refused_witness:
  "fst (runMqSubmit (exampleEnv ''master'') defaultSubmitFlags) = Inl TrunkBranch \<and>
   snd (runMqSubmit (exampleEnv ''master'') defaultSubmitFlags) = [] \<and>
   fst (runMqSubmit (exampleEnv ''mainline'') defaultSubmitFlags) \<noteq> Inl TrunkBranch"
proof -
  have h: "FindFromCwdOrError (exampleEnv br) = Some ''/town''"
    "findCurrentRig (exampleEnv br) ''/town'' = Some ''gastown''"
    "Getwd (exampleEnv br) = Some ''/town/gastown''"
    "resolveBranch (exampleEnv br) defaultSubmitFlags = Some br" for br
    by (simp_all add: exampleEnv_def resolveBranch_def defaultSubmitFlags_def)
  show ?thesis
    using C8_trunk_refused [OF h, of "''master''"] C8_trunk_refused [OF h, of "''mainline''"]
    by simp
qed

section \<open>Facts about the list command\<close>





lemma displayStatus_cases:
  "displayStatus issue =
     (if Status issue = ''open''
      then (if BlockedBy issue \<noteq> [] \<or> BlockedByCount issue > 0 then ''blocked'' else ''ready'')
      else Status issue)"
  by (simp add: displayStatus_def)

lemma waitingOn_cases:
  "waitingOn issue =
     (if BlockedBy issue \<noteq> [] \<and> (Status issue = ''open'' \<or> Status issue = ''blocked'')
      then Some (hd (BlockedBy issue)) else None)"
  by (auto simp: waitingOn_def displayStatus_def hd_conv_nth)

text \<open>
  Claim C2, as amended. For the merge requests that the list command prints, the
  display status of one whose stored status is \<open>open\<close> is \<open>blocked\<close> when its list of
  blockers is not empty or its count of blockers is positive, and \<open>ready\<close> otherwise;
  for any other stored status it is the stored status. The first blocker's id is
  reported exactly when the display status is \<open>blocked\<close> and the list of blockers is
  not empty, so it is not reported for a record that carries only a count.
\<close>

theorem C2_display_status:
  assumes "getRefineryManager env rigName = Some path"
    and "filteredIssues env fl path = Inr filtered"
    and "\<not> mqListJSON fl" and "filtered \<noteq> []"
  shows "\<exists>rows. runMQList env fl rigName = Inr (Table rows) \<and>
           map row_Status rows =
             map (\<lambda>issue. if Status issue = ''open''
                           then (if BlockedBy issue \<noteq> [] \<or> BlockedByCount issue > 0
                                 then ''blocked'' else ''ready'')
                           else Status issue) filtered \<and>
           map row_WaitingOn rows =
             map (\<lambda>issue. if BlockedBy issue \<noteq> [] \<and>
                              (Status issue = ''open'' \<or> Status issue = ''blocked'')
                           then Some (hd (BlockedBy issue)) else None) filtered"
proof -
  have "runMQList env fl rigName = Inr (Table (map (formatRow env) filtered))"
    using assms by (simp add: runMQList_def)
  moreover have "row_Status (formatRow env issue) = displayStatus issue"
    and "row_WaitingOn (formatRow env issue) = waitingOn issue" for issue
    by (simp_all add: formatRow_def Let_def)
  ultimately show ?thesis
    by (simp add: displayStatus_cases waitingOn_cases comp_def)
qed

theorem C2_display_status_witness:
  "\<exists>rows. runMQList exampleListEnv defaultListFlags ''gastown'' = Inr (Table rows) \<and>
     map row_Status rows = [''ready'', ''blocked'', ''blocked''] \<and>
     map row_WaitingOn rows = [None, None, Some ''gt-mr-1'']"
proof -
  have h: "getRefineryManager exampleListEnv ''gastown'' = Some ''/town/gastown''"
    "filteredIssues exampleListEnv defaultListFlags ''/town/gastown'' =
       Inr [mrReady, mrWaiting, mrBlocked]"
    "\<not> mqListJSON defaultListFlags" "[mrReady, mrWaiting, mrBlocked] \<noteq> []"
    by code_simp+
  show ?thesis
    using C2_display_status [OF h]
    by (simp add: mrReady_def mrWaiting_def mrBlocked_def)
qed

text \<open>
  The claim as it is written fails on a listed record that is open and carries a
  count of blockers without their ids: it is shown as \<open>blocked\<close>, and no blocker's id
  is reported.
\<close>

theorem C2_count_only_counterexample:
  "filteredIssues exampleListEnv defaultListFlags ''/town/gastown'' =
     Inr [mrReady, mrWaiting, mrBlocked] \<and>
   Status mrWaiting = ''open'' \<and> BlockedBy mrWaiting = [] \<and> BlockedByCount mrWaiting = 1 \<and>
   row_Status (formatRow exampleListEnv mrWaiting) = ''blocked'' \<and>
   row_WaitingOn (formatRow exampleListEnv mrWaiting) = None"
  by code_simp





section \<open>Facts about trimming and the notes\<close>

declare dropRunes.simps [simp del]

lemma dropRunes_None:
  "List.find (\<lambda>r. r \<noteq> [] \<and> HasPrefix s r) rs = None \<Longrightarrow> dropRunes rs s = s"
  by (subst dropRunes.simps) simp

lemma dropRunes_Some:
  "List.find (\<lambda>r. r \<noteq> [] \<and> HasPrefix s r) rs = Some r \<Longrightarrow>
     dropRunes rs s = dropRunes rs (drop (length r) s)"
  by (subst dropRunes.simps) simp

lemma dropRunes_Nil: "dropRunes rs [] = []"
  by (rule dropRunes_None) (auto simp: find_None_iff HasPrefix_def)

lemma HasPrefix_append: "HasPrefix s r \<Longrightarrow> s = r @ drop (length r) s"
  by (metis HasPrefix_def append_take_drop_id)

lemma HasPrefix_length: "HasPrefix a r \<Longrightarrow> length r \<le> length a"
  by (auto simp: HasPrefix_def dest!: arg_cong [where f = length])

lemma HasPrefix_mono: "HasPrefix a r \<Longrightarrow> HasPrefix (a @ b) r"
  by (frule HasPrefix_length) (simp add: HasPrefix_def)

lemma dropRunes_fixed:
  "List.find (\<lambda>r. r \<noteq> [] \<and> HasPrefix (dropRunes rs s) r) rs = None"
proof (induction rs s rule: dropRunes.induct)
  case (1 rs s)
  show ?case
  proof (cases "List.find (\<lambda>r. r \<noteq> [] \<and> HasPrefix s r) rs")
    case None
    then show ?thesis by (simp add: dropRunes_None)
  next
    case (Some r)
    with "1.IH" show ?thesis by (simp add: dropRunes_Some)
  qed
qed

lemma dropRunes_idem: "dropRunes rs (dropRunes rs s) = dropRunes rs s"
  by (rule dropRunes_None) (rule dropRunes_fixed)

lemma dropRunes_split: "\<exists>pre. s = pre @ dropRunes rs s \<and> dropRunes rs pre = []"
proof (induction rs s rule: dropRunes.induct)
  case (1 rs s)
  show ?case
  proof (cases "List.find (\<lambda>r. r \<noteq> [] \<and> HasPrefix s r) rs")
    case None
    then show ?thesis by (simp add: dropRunes_None dropRunes_Nil)
  next
    case (Some r)
    then obtain k where k: "k < length rs" "rs ! k = r" "r \<noteq> []" "HasPrefix s r"
      "\<forall>j<k. \<not> (rs ! j \<noteq> [] \<and> HasPrefix s (rs ! j))"
      by (auto simp: find_Some_iff)
    from "1.IH" [OF Some] obtain pre where pre:
      "drop (length r) s = pre @ dropRunes rs (drop (length r) s)" "dropRunes rs pre = []"
      by blast
    have s: "s = (r @ pre) @ dropRunes rs s"
      using HasPrefix_append [OF k(4)] pre(1) Some by (simp add: dropRunes_Some)
    have "\<not> (rs ! j \<noteq> [] \<and> HasPrefix (r @ pre) (rs ! j))" if "j < k" for j
    proof
      assume a: "rs ! j \<noteq> [] \<and> HasPrefix (r @ pre) (rs ! j)"
      then have "HasPrefix ((r @ pre) @ dropRunes rs s) (rs ! j)"
        by (simp only: HasPrefix_mono)
      then have "HasPrefix s (rs ! j)"
        using s by simp
      with a k(5) that show False
        by blast
    qed
    moreover have "HasPrefix (r @ pre) r"
      by (simp add: HasPrefix_def)
    ultimately have "List.find (\<lambda>x. x \<noteq> [] \<and> HasPrefix (r @ pre) x) rs = Some r"
      using k(1-3) unfolding find_Some_iff by (intro exI [of _ k]) simp
    then have "dropRunes rs (r @ pre) = []"
      using pre(2) by (simp add: dropRunes_Some)
    with s show ?thesis by blast
  qed
qed

lemma HasPrefix_sep:
  assumes "c \<notin> set r"
  shows "HasPrefix (a @ c # b) r = HasPrefix a r"
proof (cases "length r \<le> length a")
  case True
  then show ?thesis by (simp add: HasPrefix_def)
next
  case False
  then have "take (length r) (a @ c # b) = a @ c # take (length r - Suc (length a)) b"
    by (simp add: take_Cons')
  then have "c \<in> set (take (length r) (a @ c # b))"
    by simp
  with assms have "\<not> HasPrefix (a @ c # b) r"
    unfolding HasPrefix_def by metis
  moreover have "\<not> HasPrefix a r"
    using False HasPrefix_length by blast
  ultimately show ?thesis by simp
qed

lemma dropRunes_sep:
  assumes "\<forall>r \<in> set rs. c \<notin> set r"
  shows "dropRunes rs (a @ c # b) = dropRunes rs a @ c # b"
  using assms
proof (induction rs a rule: dropRunes.induct)
  case (1 rs a)
  have eq: "List.find (\<lambda>r. r \<noteq> [] \<and> HasPrefix (a @ c # b) r) rs =
            List.find (\<lambda>r. r \<noteq> [] \<and> HasPrefix a r) rs"
    using "1.prems" by (intro find_cong) (auto simp: HasPrefix_sep)
  show ?case
  proof (cases "List.find (\<lambda>r. r \<noteq> [] \<and> HasPrefix a r) rs")
    case None
    with eq show ?thesis by (simp add: dropRunes_None)
  next
    case (Some r)
    then have "HasPrefix a r"
      by (auto simp: find_Some_iff)
    then have "length r \<le> length a"
      by (auto simp: HasPrefix_def dest!: arg_cong [where f = length])
    then have "drop (length r) (a @ c # b) = drop (length r) a @ c # b"
      by simp
    with "1.IH" [OF Some "1.prems"] Some eq show ?thesis
      by (simp add: dropRunes_Some)
  qed
qed

lemma TrimLeftSpace_split: "\<exists>pre. s = pre @ TrimLeftSpace s \<and> TrimLeftSpace pre = []"
  unfolding TrimLeftSpace_def by (rule dropRunes_split)

lemma TrimRightSpace_split: "\<exists>post. s = TrimRightSpace s @ post \<and> TrimRightSpace post = []"
proof -
  obtain pre where pre: "rev s = pre @ dropRunes (map rev spaceRunes) (rev s)"
    "dropRunes (map rev spaceRunes) pre = []"
    using dropRunes_split by blast
  from pre(1) have "s = TrimRightSpace s @ rev pre"
    unfolding TrimRightSpace_def by (metis rev_append rev_rev_ident)
  moreover have "TrimRightSpace (rev pre) = []"
    using pre(2) by (simp add: TrimRightSpace_def)
  ultimately show ?thesis by blast
qed

lemma TrimSpace_split:
  "\<exists>pre post. s = pre @ TrimSpace s @ post \<and> TrimLeftSpace pre = [] \<and> TrimRightSpace post = []"
proof -
  obtain pre where pre: "s = pre @ TrimLeftSpace s" "TrimLeftSpace pre = []"
    using TrimLeftSpace_split by blast
  obtain post where post: "TrimLeftSpace s = TrimRightSpace (TrimLeftSpace s) @ post"
    "TrimRightSpace post = []"
    using TrimRightSpace_split by blast
  from pre(1) post(1) have "s = pre @ TrimSpace s @ post"
    by (simp add: TrimSpace_def)
  with pre(2) post(2) show ?thesis by blast
qed

lemma TrimRightSpace_idem: "TrimRightSpace (TrimRightSpace s) = TrimRightSpace s"
  by (simp add: TrimRightSpace_def dropRunes_idem)

lemma TrimLeftSpace_prefix:
  assumes "TrimLeftSpace (u @ v) = u @ v"
  shows "TrimLeftSpace u = u"
proof -
  have "List.find (\<lambda>r. r \<noteq> [] \<and> HasPrefix (u @ v) r) spaceRunes = None"
    using dropRunes_fixed [of spaceRunes "u @ v"] assms by (simp add: TrimLeftSpace_def)
  then have "List.find (\<lambda>r. r \<noteq> [] \<and> HasPrefix u r) spaceRunes = None"
    unfolding find_None_iff using HasPrefix_mono by blast
  then show ?thesis
    by (simp add: TrimLeftSpace_def dropRunes_None)
qed

lemma TrimSpace_idem: "TrimSpace (TrimSpace s) = TrimSpace s"
proof -
  obtain post where post: "TrimLeftSpace s = TrimRightSpace (TrimLeftSpace s) @ post"
    using TrimRightSpace_split by blast
  have "TrimLeftSpace (TrimLeftSpace s) = TrimLeftSpace s"
    by (simp add: TrimLeftSpace_def dropRunes_idem)
  with post have "TrimLeftSpace (TrimRightSpace (TrimLeftSpace s) @ post) =
                  TrimRightSpace (TrimLeftSpace s) @ post"
    by simp
  then have "TrimLeftSpace (TrimSpace s) = TrimSpace s"
    unfolding TrimSpace_def by (rule TrimLeftSpace_prefix)
  then show ?thesis
    by (simp add: TrimSpace_def TrimRightSpace_idem)
qed

lemma TrimSpace_Nil: "TrimSpace [] = []"
  by (simp add: TrimSpace_def TrimLeftSpace_def TrimRightSpace_def dropRunes_Nil)

lemma keepLines_filter:
  "keepLines ul lines = filter (\<lambda>line. \<not> isMRFieldLine ul line) lines"
proof (induction lines)
  case Nil
  show ?case by simp
next
  case (Cons line rest)
  have k: "take (length (takeWhile (\<lambda>c. c \<noteq> CHR '':'') t)) t = takeWhile (\<lambda>c. c \<noteq> CHR '':'') t"
    for t :: string
    by (rule takeWhile_eq_take [symmetric])
  show ?case
    using Cons.IH by (simp add: Let_def Index_def isMRFieldLine_def fieldKey_def k)
qed

lemma blank_line_kept: "TrimSpace line = [] \<Longrightarrow> \<not> isMRFieldLine ul line"
  by (simp add: isMRFieldLine_def)

lemma TrimSpace_fixed:
  assumes "TrimSpace s = s"
  shows "TrimLeftSpace s = s" and "TrimRightSpace s = s"
proof -
  obtain pre where pre: "s = pre @ TrimLeftSpace s"
    using TrimLeftSpace_split by blast
  obtain post where post: "TrimLeftSpace s = TrimRightSpace (TrimLeftSpace s) @ post"
    using TrimRightSpace_split by blast
  from post assms have "TrimLeftSpace s = s @ post"
    by (simp add: TrimSpace_def)
  then have "length (TrimLeftSpace s) = length s + length post"
    by simp
  moreover from pre have "length s = length pre + length (TrimLeftSpace s)"
    by (metis length_append)
  ultimately have "pre = []" by simp
  with pre show l: "TrimLeftSpace s = s" by simp
  with assms show "TrimRightSpace s = s" by (simp add: TrimSpace_def)
qed

lemma HasPrefix_ascii_head:
  assumes "isASCII c" and "r \<in> set spaceRunes"
  shows "HasPrefix (c # x) r = HasPrefix (c # y) r"
  using assms by (auto simp: spaceRunes_def HasPrefix_def isASCII_def)

lemma TrimLeftSpace_ascii_append:
  assumes "k \<noteq> []" and "list_all isASCII k" and "TrimLeftSpace k = k"
  shows "TrimLeftSpace (k @ rest) = k @ rest"
proof -
  obtain c k' where k: "k = c # k'"
    using assms(1) by (cases k) auto
  with assms(2) have c: "isASCII c" by simp
  have "List.find (\<lambda>r. r \<noteq> [] \<and> HasPrefix (c # k') r) spaceRunes = None"
    using dropRunes_fixed [of spaceRunes k] assms(3) k by (simp add: TrimLeftSpace_def)
  then have "List.find (\<lambda>r. r \<noteq> [] \<and> HasPrefix (c # k' @ rest) r) spaceRunes = None"
    unfolding find_None_iff using HasPrefix_ascii_head [OF c] by blast
  then show ?thesis
    using k by (simp add: TrimLeftSpace_def dropRunes_None)
qed

lemma colon_not_in_space: "\<forall>r \<in> set (map rev spaceRunes). CHR '':'' \<notin> set r"
  by (simp add: spaceRunes_def)

lemma TrimRightSpace_colon:
  "TrimRightSpace (k @ CHR '':'' # v) = k @ CHR '':'' # TrimRightSpace v"
  using dropRunes_sep [OF colon_not_in_space, of "rev v" "rev k"]
  by (simp add: TrimRightSpace_def)

lemma TrimSpace_key_line:
  assumes "k \<noteq> []" and "list_all isASCII k" and "TrimSpace k = k"
  shows "TrimSpace (k @ CHR '':'' # v) = k @ CHR '':'' # TrimRightSpace v"
  using TrimLeftSpace_ascii_append [OF assms(1,2) TrimSpace_fixed(1) [OF assms(3)]]
  by (simp add: TrimSpace_def TrimRightSpace_colon)

lemma isMRFieldLine_key_line:
  assumes "k \<noteq> []" and "list_all isASCII k" and "TrimSpace k = k" and "CHR '':'' \<notin> set k"
  shows "isMRFieldLine ul (k @ CHR '':'' # v) = (map asciiLower k \<in> set mrKeys)"
proof -
  have "takeWhile (\<lambda>c. c \<noteq> CHR '':'') (k @ CHR '':'' # TrimRightSpace v) = k"
    using assms(4) by (auto simp: takeWhile_tail)
  then show ?thesis
    using assms(2,3)
    by (simp add: isMRFieldLine_def fieldKey_def TrimSpace_key_line [OF assms(1-3)] ToLower_def)
qed

text \<open>
  Claim C3, as amended. A line is dropped as a merge-request field exactly when it has
  a colon and the text before the first colon, without the space around it and in
  lower case, is one of the fourteen entries of the table. The separators are not
  stripped: for a key of ASCII text the test is membership of the lower-cased key
  itself, so of the spellings of a two-word field only the three that the table lists
  (with \<open>_\<close>, with \<open>-\<close>, with neither) are recognized.
\<close>

theorem C3_key_table:
  "keepLines ul lines =
     filter (\<lambda>line. \<not> (CHR '':'' \<in> set (TrimSpace line) \<and>
                        ToLower ul (fieldKey line) \<in> set mrKeys)) lines \<and>
   (k \<noteq> [] \<and> list_all isASCII k \<and> TrimSpace k = k \<and> CHR '':'' \<notin> set k \<longrightarrow>
      keepLines ul ((k @ CHR '':'' # v) # rest) =
        (if map asciiLower k \<in> set mrKeys then keepLines ul rest
         else (k @ CHR '':'' # v) # keepLines ul rest))"
proof (intro conjI impI)
  show "keepLines ul lines =
     filter (\<lambda>line. \<not> (CHR '':'' \<in> set (TrimSpace line) \<and>
                        ToLower ul (fieldKey line) \<in> set mrKeys)) lines"
    by (simp add: keepLines_filter isMRFieldLine_def)
next
  assume "k \<noteq> [] \<and> list_all isASCII k \<and> TrimSpace k = k \<and> CHR '':'' \<notin> set k"
  then have "isMRFieldLine ul (k @ CHR '':'' # v) = (map asciiLower k \<in> set mrKeys)"
    by (simp add: isMRFieldLine_key_line)
  then show "keepLines ul ((k @ CHR '':'' # v) # rest) =
        (if map asciiLower k \<in> set mrKeys then keepLines ul rest
         else (k @ CHR '':'' # v) # keepLines ul rest)"
    by (simp add: keepLines_filter)
qed

theorem C3_key_table_witness:
  "keepLines identityLower [''Source-Issue: gt-42'', ''a note''] = [''a note''] \<and>
   keepLines identityLower [''source_-issue: gt-42'', ''a note''] =
     [''source_-issue: gt-42'', ''a note'']"
proof -
  have a: "''Source-Issue'' \<noteq> [] \<and> list_all isASCII ''Source-Issue'' \<and>
           TrimSpace ''Source-Issue'' = ''Source-Issue'' \<and> CHR '':'' \<notin> set ''Source-Issue''"
    by code_simp
  have b: "''source_-issue'' \<noteq> [] \<and> list_all isASCII ''source_-issue'' \<and>
           TrimSpace ''source_-issue'' = ''source_-issue'' \<and> CHR '':'' \<notin> set ''source_-issue''"
    by code_simp
  have c: "map asciiLower ''Source-Issue'' \<in> set mrKeys"
    "map asciiLower ''source_-issue'' \<notin> set mrKeys"
    "keepLines identityLower [''a note''] = [''a note'']"
    by code_simp+
  show ?thesis
    using C3_key_table [of identityLower "[]" "''Source-Issue''" "'' gt-42''" "[''a note'']"]
          C3_key_table [of identityLower "[]" "''source_-issue''" "'' gt-42''" "[''a note'']"]
          a b c
    by simp
qed

text \<open>
  The claim as it is written fails: the key \<open>source_-issue\<close> becomes \<open>sourceissue\<close>, a
  known field name, once lower-cased and stripped of its separators, yet the line is
  kept as a note, while the line with the key \<open>source_issue\<close> is dropped.
\<close>

theorem C3_mixed_separators_counterexample:
  "normalizedKey identityLower ''source_-issue'' = ''sourceissue'' \<and>
   normalizedKey identityLower ''source_issue'' = ''sourceissue'' \<and>
   ''sourceissue'' \<in> set mrKeys \<and>
   getDescriptionWithoutMRFields identityLower ''source_issue: gt-42'' = [] \<and>
   getDescriptionWithoutMRFields identityLower ''source_-issue: gt-42'' = ''source_-issue: gt-42''"
  by code_simp

text \<open>
  What the function computes, for every description: the lines that are not field
  lines, each as it is and in its order, joined by newlines again, and then trimmed by
  \<open>strings.TrimSpace\<close>, which takes a run of space off the front and off the back of
  the joined text. A blank line is never a field line.
\<close>

lemma notes_trimmed_join:
  "(\<exists>pre post.
      Join (filter (\<lambda>line. \<not> isMRFieldLine ul line) (Split description CHR 0x0A)) [CHR 0x0A] =
        pre @ getDescriptionWithoutMRFields ul description @ post \<and>
      TrimLeftSpace pre = [] \<and> TrimRightSpace post = []) \<and>
   TrimSpace (getDescriptionWithoutMRFields ul description) =
     getDescriptionWithoutMRFields ul description \<and>
   (TrimSpace line = [] \<longrightarrow> \<not> isMRFieldLine ul line)"
proof -
  let ?kept = "Join (filter (\<lambda>line. \<not> isMRFieldLine ul line) (Split description CHR 0x0A)) [CHR 0x0A]"
  have g: "getDescriptionWithoutMRFields ul description = TrimSpace ?kept"
  proof (cases "description = []")
    case True
    then show ?thesis
      by (simp add: getDescriptionWithoutMRFields_def isMRFieldLine_def TrimSpace_Nil)
  next
    case False
    then show ?thesis
      by (simp add: getDescriptionWithoutMRFields_def keepLines_filter)
  qed
  show ?thesis
    unfolding g using TrimSpace_split [of ?kept] TrimSpace_idem [of ?kept] blank_line_kept [of line ul]
    by blast
qed


text \<open>
  Claim C4. The claim says that every line that is not a field line is kept verbatim
  and that only leading and trailing blank runs are trimmed; the comment in the code
  says \<open>Trim leading/trailing blank lines\<close>. The loop does keep the line as it is, but the
  trim of the joined text also takes the indentation of the first kept line and the
  space that ends the last one: of the description below the loop keeps the line
  \<open>  indented note  \<close> and the empty last line, and the result is \<open>indented note\<close>.
\<close>

theorem C4_indentation_lost:
  "keepLines ul (Split ''close_reason: done\<newline>  indented note  \<newline>'' CHR 0x0A) =
     [''  indented note  '', []] \<and>
   getDescriptionWithoutMRFields ul ''close_reason: done\<newline>  indented note  \<newline>'' =
     ''indented note''"
  by code_simp

theorem C4_indentation_lost_witness:
  "keepLines identityLower (Split ''close_reason: done\<newline>  indented note  \<newline>'' CHR 0x0A) =
     [''  indented note  '', []] \<and>
   getDescriptionWithoutMRFields identityLower ''close_reason: done\<newline>  indented note  \<newline>'' =
     ''indented note''"
  by (rule C4_indentation_lost)

end
